theory Spec2Isabelle
  imports Main
begin

section \<open>Effects shared by the stores and the remote client\<close>

text \<open>
  The stores are zustand stores: a state object, and actions that replace fields of it
  with \<^verbatim>\<open>set\<close>. An action is modelled as a function from the state to the new state
  together with the list of effects it performs on the outside world, in order.
  An \<^verbatim>\<open>async\<close> action is split at its \<^verbatim>\<open>await\<close>: the part before it runs when the
  action is called (and issues the request), the part after it runs when the promise
  settles, on the state the store has at that moment. Request bodies are not modelled.
\<close>

datatype http_method = GET | POST | PATCH | DELETE

datatype effect =
    Request http_method string
  | SocketEmit string string
  | RemoveItem string
  | SetHref string
  | SetTimeout nat string
  | ConsoleError string

text \<open>JavaScript truthiness of a string: every string but the empty one.\<close>

definition truthy :: "string \<Rightarrow> bool" where
  "truthy s \<longleftrightarrow> s \<noteq> []"

section \<open>The remote client (src/lib/api.ts)\<close>

text \<open>
  What an axios call rejects with: \<^verbatim>\<open>error.response\<close> (absent when no response came),
  whether \<^verbatim>\<open>error.request\<close> is set, and \<^verbatim>\<open>error.message\<close>. The body of a
  response is a string (an error page) or an object, of which only the optional
  \<^verbatim>\<open>error\<close> field is read. The HTTP status is written \<open>http_status\<close>.
\<close>

datatype response_data = DataString string | DataObject "string option"

record error_response =
  http_status :: nat
  statusText :: "string option"
  data :: response_data

record api_error =
  response :: "error_response option"
  request :: bool
  err_message :: string

text \<open>The browser state the client touches: \<^verbatim>\<open>localStorage\<close> and \<^verbatim>\<open>window.location\<close>.\<close>

record browser =
  localStorage :: "string \<rightharpoonup> string"
  pathname :: string

text \<open>String concatenation with a value that may be \<^verbatim>\<open>undefined\<close>.\<close>

definition js_concat :: "string \<Rightarrow> string option \<Rightarrow> string" where
  "js_concat s t = (case t of None \<Rightarrow> s @ ''undefined'' | Some t' \<Rightarrow> s @ t')"

text \<open>
  The first half of the response interceptor's error handler: on status 401 the
  persisted entry is removed and, unless the page is the login page already, the
  browser is sent there.
\<close>

definition handle_unauthorized :: "api_error \<Rightarrow> browser \<Rightarrow> browser \<times> effect list" where
  "handle_unauthorized error b =
     (if map_option http_status (response error) = Some 401 then
        (b\<lparr>localStorage := (localStorage b)(''auth-storage'' := None)\<rparr>,
         RemoveItem ''auth-storage'' #
           (if pathname b \<noteq> ''/login'' then [SetHref ''/login''] else []))
      else (b, []))"

text \<open>The second half: every failure gets a \<^verbatim>\<open>response\<close> with an object body.\<close>

definition normalize_error :: "api_error \<Rightarrow> api_error" where
  "normalize_error error =
     (case response error of
        Some r \<Rightarrow>
          (case data r of
             DataString _ \<Rightarrow>
               error\<lparr>response :=
                 Some (r\<lparr>data := DataObject (Some (js_concat ''Server error: '' (statusText r)))\<rparr>)\<rparr>
           | DataObject _ \<Rightarrow> error)
      | None \<Rightarrow>
          (if request error then
             error\<lparr>response :=
               Some \<lparr>http_status = 0, statusText = None,
                     data = DataObject (Some ''No response from server'')\<rparr>\<rparr>
           else
             error\<lparr>response :=
               Some \<lparr>http_status = 0, statusText = None,
                     data = DataObject (Some (err_message error))\<rparr>\<rparr>))"

text \<open>
  The error handler given to \<^verbatim>\<open>api.interceptors.response.use\<close>. It ends in
  \<^verbatim>\<open>Promise.reject(error)\<close> on every path: the result is the rejection (\<open>Inl\<close>).
\<close>

definition response_error_handler ::
  "api_error \<Rightarrow> browser \<Rightarrow> (api_error + 'r) \<times> browser \<times> effect list" where
  "response_error_handler error b =
     (case handle_unauthorized error b of
        (b', fx) \<Rightarrow> (Inl (normalize_error error), b', fx))"

text \<open>
  The stores read a failure with
  \<^verbatim>\<open>error?.response?.data?.error || fallback\<close>.
\<close>

definition response_error_or :: "api_error \<Rightarrow> string \<Rightarrow> string" where
  "response_error_or e fallback =
     (case response e of
        None \<Rightarrow> fallback
      | Some r \<Rightarrow>
          (case data r of
             DataString _ \<Rightarrow> fallback
           | DataObject None \<Rightarrow> fallback
           | DataObject (Some m) \<Rightarrow> if truthy m then m else fallback))"

text \<open>
  What the actions throw: \<^verbatim>\<open>new Error(message)\<close>, or the \<^verbatim>\<open>DOMException\<close> (given
  by its name) that a write to \<^verbatim>\<open>localStorage\<close> throws.
\<close>

datatype js_error = Error string | DOMException string

definition is_request :: "effect \<Rightarrow> bool" where
  "is_request fx = (case fx of Request _ _ \<Rightarrow> True | _ \<Rightarrow> False)"

section \<open>The auth store (src/stores/authStore.ts)\<close>

text \<open>
  The store's state, with the user record left as a type parameter, and beside it the
  default headers of the client (\<^verbatim>\<open>api.defaults.headers.common\<close>), which the
  actions write.
\<close>

record 'u auth_state =
  user :: "'u option"
  token :: "string option"
  isAuthenticated :: bool
  isLoading :: bool
  error :: "string option"

type_synonym headers = "string \<rightharpoonup> string"

subsection \<open>The persist middleware around the store\<close>

text \<open>
  The store is created inside \<^verbatim>\<open>persist(..., {name: 'auth-storage', partialize:
  (state) => ({token: state.token})})\<close>. The \<^verbatim>\<open>set\<close> that zustand's middleware hands
  to the actions first updates the state and then, in the same synchronous call, writes
  the partialized state to \<^verbatim>\<open>localStorage\<close> under that name, as the JSON text
  \<^verbatim>\<open>{"state":{"token":...},"version":0}\<close>. \<^verbatim>\<open>localStorage.setItem\<close> can throw (the
  quota is exceeded, or storage is disabled): \<open>write_failure\<close> names the exception it
  throws, if any. An exception thrown there leaves \<^verbatim>\<open>set\<close>, and the action that
  called it, after the state has been updated.
\<close>

record web_storage =
  items :: "string \<rightharpoonup> string"
  write_failure :: "string option"

definition setItem :: "string \<Rightarrow> string \<Rightarrow> web_storage \<Rightarrow> js_error + web_storage" where
  "setItem k v st =
     (case write_failure st of
        Some n \<Rightarrow> Inl (DOMException n)
      | None \<Rightarrow> Inr (st\<lparr>items := (items st)(k \<mapsto> v)\<rparr>))"

text \<open>A string as JSON text (the characters that need escaping do not occur in a token).\<close>

definition json_string :: "string \<Rightarrow> string" where
  "json_string x = [CHR 0x22] @ x @ [CHR 0x22]"

definition persisted_auth :: "string option \<Rightarrow> string" where
  "persisted_auth t =
     ''{'' @ json_string ''state'' @ '':{'' @ json_string ''token'' @ '':'' @
     (case t of None \<Rightarrow> ''null'' | Some x \<Rightarrow> json_string x) @
     ''},'' @ json_string ''version'' @ '':0}''"

definition persist_set ::
  "('u auth_state \<Rightarrow> 'u auth_state) \<Rightarrow> 'u auth_state \<times> web_storage
     \<Rightarrow> (js_error + unit) \<times> 'u auth_state \<times> web_storage" where
  "persist_set f ss =
     (case ss of (s, st) \<Rightarrow>
        (let s' = f s in
         case setItem ''auth-storage'' (persisted_auth (token s')) st of
           Inl x \<Rightarrow> (Inl x, s', st)
         | Inr st' \<Rightarrow> (Inr (), s', st')))"

subsection \<open>logout\<close>

definition logout :: "'u auth_state \<Rightarrow> 'u auth_state \<times> effect list" where
  "logout s = (s, [Request POST ''/auth/logout''])"

text \<open>
  The statements after the \<^verbatim>\<open>try\<close>: the header is deleted, then \<^verbatim>\<open>set\<close> is called.
  They are not inside a \<^verbatim>\<open>try\<close>, so what \<^verbatim>\<open>set\<close> throws rejects the promise of
  \<open>logout\<close> (\<open>Inl\<close>); otherwise the promise resolves (\<open>Inr\<close>).
\<close>

definition logout_finish ::
  "'u auth_state \<times> headers \<times> web_storage
     \<Rightarrow> (js_error + unit) \<times> 'u auth_state \<times> headers \<times> web_storage" where
  "logout_finish shs =
     (case shs of (s, h, st) \<Rightarrow>
        (let h' = h(''Authorization'' := None) in
         case persist_set
                (\<lambda>s. s\<lparr>user := None, token := None, isAuthenticated := False,
                        isLoading := False\<rparr>)
                (s, st) of
           (res, s', st') \<Rightarrow> (res, s', h', st')))"

text \<open>
  After the \<^verbatim>\<open>await\<close>: when the call resolved the \<^verbatim>\<open>try\<close> block is left normally;
  when it was rejected the empty \<^verbatim>\<open>catch\<close> block swallows the error.
\<close>

definition logout_settled ::
  "api_error + 'r \<Rightarrow> 'u auth_state \<times> headers \<times> web_storage
     \<Rightarrow> (js_error + unit) \<times> 'u auth_state \<times> headers \<times> web_storage" where
  "logout_settled outcome shs =
     (case outcome of
        Inr _ \<Rightarrow> logout_finish shs
      | Inl _ \<Rightarrow> logout_finish shs)"

section \<open>The task store (src/stores/taskStore.ts)\<close>

text \<open>
  Of a \<^verbatim>\<open>Task\<close> the store reads \<^verbatim>\<open>_id\<close> only (written \<open>t_id\<close>); the fields not
  listed here (assignees, dates, attachments, comments, activities, subtasks, order)
  live in the extension slot of the record. The same holds for the \<^verbatim>\<open>filters\<close> and
  \<^verbatim>\<open>pagination\<close> fields of the state, which the mutating actions never write.
\<close>

datatype task_status = Backlog | Todo | InProgress | InReview | Done | Archived

datatype task_priority = Low | Medium | High | Urgent

record task =
  t_id :: string
  title :: string
  description :: "string option"
  status :: task_status
  priority :: task_priority
  tags :: "string list"

record 't task_state =
  tasks :: "'t list"
  currentTask :: "'t option"
  isLoading :: bool
  error :: "string option"

type_synonym ('a, 'z) tstate = "('a task_scheme, 'z) task_state_scheme"

text \<open>
  The cache patch shared by \<open>updateTask\<close>, \<open>addComment\<close> and \<open>updateTaskStatus\<close>:
  \<^verbatim>\<open>tasks: state.tasks.map((t) => (t._id === taskId ? updatedTask : t)),
  currentTask: state.currentTask?._id === taskId ? updatedTask : state.currentTask\<close>.
\<close>

definition replace_task :: "string \<Rightarrow> 'a task_scheme \<Rightarrow> ('a, 'z) tstate \<Rightarrow> ('a, 'z) tstate" where
  "replace_task taskId updatedTask s =
     s\<lparr>tasks := map (\<lambda>t. if t_id t = taskId then updatedTask else t) (tasks s),
       currentTask :=
         (case currentTask s of
            None \<Rightarrow> None
          | Some c \<Rightarrow> if t_id c = taskId then Some updatedTask else Some c)\<rparr>"

subsection \<open>createTask\<close>

definition createTask :: "('a, 'z) tstate \<Rightarrow> ('a, 'z) tstate \<times> effect list" where
  "createTask s = (s, [Request POST ''/tasks''])"

definition createTask_settled ::
  "api_error + 'a task_scheme \<Rightarrow> ('a, 'z) tstate \<Rightarrow> (js_error + 'a task_scheme) \<times> ('a, 'z) tstate" where
  "createTask_settled outcome s =
     (case outcome of
        Inr newTask \<Rightarrow> (Inr newTask, s\<lparr>tasks := newTask # tasks s\<rparr>)
      | Inl e \<Rightarrow> (Inl (Error (response_error_or e ''Failed to create task'')), s))"

subsection \<open>updateTask\<close>

definition updateTask :: "string \<Rightarrow> ('a, 'z) tstate \<Rightarrow> ('a, 'z) tstate \<times> effect list" where
  "updateTask taskId s = (s, [Request PATCH (''/tasks/'' @ taskId)])"

definition updateTask_settled ::
  "string \<Rightarrow> api_error + 'a task_scheme \<Rightarrow> ('a, 'z) tstate
     \<Rightarrow> (js_error + 'a task_scheme) \<times> ('a, 'z) tstate" where
  "updateTask_settled taskId outcome s =
     (case outcome of
        Inr updatedTask \<Rightarrow> (Inr updatedTask, replace_task taskId updatedTask s)
      | Inl e \<Rightarrow> (Inl (Error (response_error_or e ''Failed to update task'')), s))"

subsection \<open>deleteTask\<close>

definition deleteTask :: "string \<Rightarrow> ('a, 'z) tstate \<Rightarrow> ('a, 'z) tstate \<times> effect list" where
  "deleteTask taskId s = (s, [Request DELETE (''/tasks/'' @ taskId)])"

definition deleteTask_settled ::
  "string \<Rightarrow> api_error + 'r \<Rightarrow> ('a, 'z) tstate \<Rightarrow> (js_error + unit) \<times> ('a, 'z) tstate" where
  "deleteTask_settled taskId outcome s =
     (case outcome of
        Inr _ \<Rightarrow>
          (Inr (),
           s\<lparr>tasks := filter (\<lambda>t. t_id t \<noteq> taskId) (tasks s),
             currentTask :=
               (case currentTask s of
                  None \<Rightarrow> None
                | Some c \<Rightarrow> if t_id c = taskId then None else Some c)\<rparr>)
      | Inl e \<Rightarrow> (Inl (Error (response_error_or e ''Failed to delete task'')), s))"

subsection \<open>addComment\<close>

definition addComment :: "string \<Rightarrow> ('a, 'z) tstate \<Rightarrow> ('a, 'z) tstate \<times> effect list" where
  "addComment taskId s = (s, [Request POST (''/tasks/'' @ taskId @ ''/comments'')])"

definition addComment_settled ::
  "string \<Rightarrow> api_error + 'a task_scheme \<Rightarrow> ('a, 'z) tstate \<Rightarrow> (js_error + unit) \<times> ('a, 'z) tstate" where
  "addComment_settled taskId outcome s =
     (case outcome of
        Inr updatedTask \<Rightarrow> (Inr (), replace_task taskId updatedTask s)
      | Inl e \<Rightarrow> (Inl (Error (response_error_or e ''Failed to add comment'')), s))"

subsection \<open>updateTaskStatus\<close>

definition updateTaskStatus :: "string \<Rightarrow> ('a, 'z) tstate \<Rightarrow> ('a, 'z) tstate \<times> effect list" where
  "updateTaskStatus taskId s = (s, [Request PATCH (''/tasks/'' @ taskId)])"

definition updateTaskStatus_settled ::
  "string \<Rightarrow> api_error + 'a task_scheme \<Rightarrow> ('a, 'z) tstate \<Rightarrow> (js_error + unit) \<times> ('a, 'z) tstate" where
  "updateTaskStatus_settled taskId outcome s =
     (case outcome of
        Inr updatedTask \<Rightarrow> (Inr (), replace_task taskId updatedTask s)
      | Inl e \<Rightarrow> (Inl (Error (response_error_or e ''Failed to update status'')), s))"

text \<open>The five mutating actions, to speak about all of them at once.\<close>

datatype 't task_action =
    CreateTask
  | UpdateTask string
  | DeleteTask string
  | AddComment string
  | UpdateTaskStatus string

fun call_action :: "'a task_scheme task_action \<Rightarrow> ('a, 'z) tstate \<Rightarrow> ('a, 'z) tstate \<times> effect list" where
  "call_action CreateTask s = createTask s"
| "call_action (UpdateTask i) s = updateTask i s"
| "call_action (DeleteTask i) s = deleteTask i s"
| "call_action (AddComment i) s = addComment i s"
| "call_action (UpdateTaskStatus i) s = updateTaskStatus i s"

text \<open>
  The settling of an action, with the value its promise resolves to dropped: \<open>Inl\<close> is
  the error the action throws, \<open>Inr ()\<close> that it returned.
\<close>

definition drop_value :: "(js_error + 'v) \<times> 's \<Rightarrow> (js_error + unit) \<times> 's" where
  "drop_value p = (case p of (r, s) \<Rightarrow> (map_sum id (\<lambda>_. ()) r, s))"

fun settle_action ::
  "'a task_scheme task_action \<Rightarrow> api_error + 'a task_scheme \<Rightarrow> ('a, 'z) tstate
     \<Rightarrow> (js_error + unit) \<times> ('a, 'z) tstate" where
  "settle_action CreateTask outcome s = drop_value (createTask_settled outcome s)"
| "settle_action (UpdateTask i) outcome s = drop_value (updateTask_settled i outcome s)"
| "settle_action (DeleteTask i) outcome s = deleteTask_settled i outcome s"
| "settle_action (AddComment i) outcome s = addComment_settled i outcome s"
| "settle_action (UpdateTaskStatus i) outcome s = updateTaskStatus_settled i outcome s"

text \<open>The text each action's \<^verbatim>\<open>catch\<close> block falls back to.\<close>

fun fallback_message :: "'t task_action \<Rightarrow> string" where
  "fallback_message CreateTask = ''Failed to create task''"
| "fallback_message (UpdateTask _) = ''Failed to update task''"
| "fallback_message (DeleteTask _) = ''Failed to delete task''"
| "fallback_message (AddComment _) = ''Failed to add comment''"
| "fallback_message (UpdateTaskStatus _) = ''Failed to update status''"

section \<open>The push channel (src/lib/socket.ts)\<close>

text \<open>
  Of the \<^verbatim>\<open>SocketManager\<close> the stores use \<^verbatim>\<open>emit\<close> only, which sends when
  \<^verbatim>\<open>this.socket?.connected\<close> holds: \<open>socket\<close> is \<open>None\<close> for \<^verbatim>\<open>null\<close>, and otherwise
  holds the \<^verbatim>\<open>connected\<close> flag of the socket.
\<close>

record socket_manager =
  socket :: "bool option"

definition emit :: "socket_manager \<Rightarrow> string \<Rightarrow> string \<Rightarrow> effect list" where
  "emit sm event d = (if socket sm = Some True then [SocketEmit event d] else [])"

section \<open>The message store (src/stores/messageStore.ts)\<close>

text \<open>
  The fields of \<^verbatim>\<open>Message\<close> that the store never reads (mentions, readBy, replyTo,
  reactions) live in the extension slot of the record, so every statement below holds
  for messages carrying any further fields. \<^verbatim>\<open>_id\<close> is written \<open>m_id\<close> and \<open>u_id\<close>.
\<close>

record user_ref =
  u_id :: string
  firstName :: string
  lastName :: string
  email :: string
  avatar :: "string option"

record message =
  m_id :: string
  content :: string
  sender :: user_ref
  recipient :: "user_ref option"
  channel :: "string option"
  taskRef :: "string option"
  isEdited :: bool
  createdAt :: string
  updatedAt :: string

record 'm conversation =
  conv_user :: user_ref
  lastSeen :: string
  lastMessage :: 'm
  conv_unreadCount :: int

record unread_count =
  total :: int
  byChannel :: "string \<rightharpoonup> int"
  byConversation :: "string \<rightharpoonup> int"

record 'm message_state =
  messages :: "'m list"
  conversations :: "'m conversation list"
  activeChannel :: "string option"
  activeRecipient :: "string option"
  isLoading :: bool
  hasMore :: bool
  unreadCount :: unread_count
  typingUsers :: "string \<rightharpoonup> bool"

type_synonym 'a mstate = "'a message_scheme message_state"

text \<open>The store as \<^verbatim>\<open>create\<close> builds it.\<close>

definition initial_message_state :: "'a mstate" where
  "initial_message_state =
     \<lparr>messages = [], conversations = [], activeChannel = None, activeRecipient = None,
      isLoading = False, hasMore = False,
      unreadCount = \<lparr>total = 0, byChannel = Map.empty, byConversation = Map.empty\<rparr>,
      typingUsers = Map.empty\<rparr>"

subsection \<open>fetchUnreadCount\<close>

definition fetchUnreadCount :: "'a mstate \<Rightarrow> 'a mstate \<times> effect list" where
  "fetchUnreadCount s = (s, [Request GET ''/messages/unread''])"

definition fetchUnreadCount_resolved :: "unread_count \<Rightarrow> 'a mstate \<Rightarrow> 'a mstate \<times> effect list" where
  "fetchUnreadCount_resolved d s = (s\<lparr>unreadCount := d\<rparr>, [])"

definition fetchUnreadCount_rejected :: "'a mstate \<Rightarrow> 'a mstate \<times> effect list" where
  "fetchUnreadCount_rejected s = (s, [ConsoleError ''Failed to fetch unread count:''])"

subsection \<open>addMessage\<close>

text \<open>
  The test of \<^verbatim>\<open>addMessage\<close>:
  \<^verbatim>\<open>(message.channel && message.channel === activeChannel) ||
  (message.recipient && (message.recipient._id === activeRecipient ||
                         message.sender._id === activeRecipient))\<close>.
  A string is never \<^verbatim>\<open>===\<close> to \<^verbatim>\<open>null\<close>.
\<close>

definition in_active_scope :: "'a mstate \<Rightarrow> 'a message_scheme \<Rightarrow> bool" where
  "in_active_scope s msg \<longleftrightarrow>
     (case channel msg of
        None \<Rightarrow> False
      | Some c \<Rightarrow> truthy c \<and> activeChannel s = Some c)
     \<or>
     (case recipient msg of
        None \<Rightarrow> False
      | Some r \<Rightarrow> activeRecipient s = Some (u_id r)
                \<or> activeRecipient s = Some (u_id (sender msg)))"

definition addMessage :: "'a message_scheme \<Rightarrow> 'a mstate \<Rightarrow> 'a mstate \<times> effect list" where
  "addMessage msg s =
     (let s' =
        (if in_active_scope s msg then
           (if find (\<lambda>m. m_id m = m_id msg) (messages s) = None
            then s\<lparr>messages := messages s @ [msg]\<rparr>
            else s)
         else s)
      in fetchUnreadCount s')"

text \<open>
  Live events as the store sees them while messages are delivered: a delivery, or the
  settling of one of the unread-count fetches the deliveries started.
\<close>

datatype 'm delivery =
    AddMessage 'm
  | UnreadResolved unread_count
  | UnreadRejected

fun deliver :: "'a message_scheme delivery \<Rightarrow> 'a mstate \<Rightarrow> 'a mstate \<times> effect list" where
  "deliver (AddMessage m) s = addMessage m s"
| "deliver (UnreadResolved d) s = fetchUnreadCount_resolved d s"
| "deliver UnreadRejected s = fetchUnreadCount_rejected s"

fun deliver_all :: "'a message_scheme delivery list \<Rightarrow> 'a mstate \<Rightarrow> 'a mstate \<times> effect list" where
  "deliver_all [] s = (s, [])"
| "deliver_all (e # es) s =
     (case deliver e s of (s1, fx1) \<Rightarrow>
        (case deliver_all es s1 of (s2, fx2) \<Rightarrow> (s2, fx1 @ fx2)))"

text \<open>How many cached messages carry the id \<open>i\<close>.\<close>

definition copies :: "string \<Rightarrow> 'a message_scheme list \<Rightarrow> nat" where
  "copies i ms = length (filter (\<lambda>m. m_id m = i) ms)"

text \<open>
  The scope of a message in the words of the specification: its channel equals the
  active channel, or its sender or recipient id equals the active direct-conversation
  partner.
\<close>

definition spec_active_scope :: "'a mstate \<Rightarrow> 'a message_scheme \<Rightarrow> bool" where
  "spec_active_scope s msg \<longleftrightarrow>
     (channel msg \<noteq> None \<and> channel msg = activeChannel s)
     \<or> (activeRecipient s \<noteq> None \<and>
          (Some (u_id (sender msg)) = activeRecipient s
           \<or> map_option u_id (recipient msg) = activeRecipient s))"

subsection \<open>sendMessage\<close>

definition sendMessage :: "'a mstate \<Rightarrow> 'a mstate \<times> effect list" where
  "sendMessage s = (s, [Request POST ''/messages''])"

text \<open>The \<^verbatim>\<open>catch\<close> block logs and throws the error it caught.\<close>

definition sendMessage_settled ::
  "'e + 'a message_scheme \<Rightarrow> 'a mstate \<Rightarrow> ('e + unit) \<times> 'a mstate \<times> effect list" where
  "sendMessage_settled outcome s =
     (case outcome of
        Inr newMessage \<Rightarrow> (Inr (), s\<lparr>messages := messages s @ [newMessage]\<rparr>, [])
      | Inl e \<Rightarrow> (Inl e, s, [ConsoleError ''Failed to send message:'']))"

subsection \<open>fetchChannelMessages and fetchDirectMessages\<close>

definition fetchChannelMessages :: "string \<Rightarrow> 'a mstate \<Rightarrow> 'a mstate \<times> effect list" where
  "fetchChannelMessages ch s =
     (s\<lparr>isLoading := True, messages := [], activeChannel := Some ch, activeRecipient := None\<rparr>,
      [Request GET (''/messages/channel/'' @ ch)])"

definition fetchChannelMessages_settled ::
  "socket_manager \<Rightarrow> string \<Rightarrow> 'e + ('a message_scheme list \<times> bool) \<Rightarrow> 'a mstate
     \<Rightarrow> 'a mstate \<times> effect list" where
  "fetchChannelMessages_settled sm ch outcome s =
     (case outcome of
        Inr (ms, hm) \<Rightarrow>
          (s\<lparr>messages := ms, hasMore := hm, isLoading := False\<rparr>, emit sm ''channel:join'' ch)
      | Inl e \<Rightarrow>
          (s\<lparr>isLoading := False\<rparr>, [ConsoleError ''Failed to fetch channel messages:'']))"

definition fetchDirectMessages :: "string \<Rightarrow> 'a mstate \<Rightarrow> 'a mstate \<times> effect list" where
  "fetchDirectMessages userId s =
     (s\<lparr>isLoading := True, messages := [], activeRecipient := Some userId, activeChannel := None\<rparr>,
      [Request GET (''/messages/dm/'' @ userId)])"

definition fetchDirectMessages_settled ::
  "'e + ('a message_scheme list \<times> bool) \<Rightarrow> 'a mstate \<Rightarrow> 'a mstate \<times> effect list" where
  "fetchDirectMessages_settled outcome s =
     (case outcome of
        Inr (ms, hm) \<Rightarrow> (s\<lparr>messages := ms, hasMore := hm, isLoading := False\<rparr>, [])
      | Inl e \<Rightarrow>
          (s\<lparr>isLoading := False\<rparr>, [ConsoleError ''Failed to fetch direct messages:'']))"

subsection \<open>setActiveChannel and setActiveRecipient\<close>

definition setActiveChannel ::
  "socket_manager \<Rightarrow> string option \<Rightarrow> 'a mstate \<Rightarrow> 'a mstate \<times> effect list" where
  "setActiveChannel sm ch s =
     (let fx1 =
        (case activeChannel s of
           None \<Rightarrow> []
         | Some prev \<Rightarrow> if truthy prev then emit sm ''channel:leave'' prev else []);
          s1 = s\<lparr>activeChannel := ch, activeRecipient := None\<rparr>
      in case ch of
           None \<Rightarrow> (s1, fx1)
         | Some c \<Rightarrow>
             if truthy c then
               (case fetchChannelMessages c s1 of (s2, fx2) \<Rightarrow> (s2, fx1 @ fx2))
             else (s1, fx1))"

definition setActiveRecipient ::
  "string option \<Rightarrow> 'a mstate \<Rightarrow> 'a mstate \<times> effect list" where
  "setActiveRecipient userId s =
     (let s1 = s\<lparr>activeRecipient := userId, activeChannel := None\<rparr>
      in case userId of
           None \<Rightarrow> (s1, [])
         | Some u \<Rightarrow>
             if truthy u then fetchDirectMessages u s1 else (s1, []))"

subsection \<open>setTyping\<close>

text \<open>
  \<open>SetTimeout d u\<close> stands for \<^verbatim>\<open>setTimeout(callback, d)\<close> with the callback of
  \<open>setTyping\<close> for the user \<open>u\<close>; \<open>typing_timeout u\<close> is that callback.
\<close>

definition setTyping :: "string \<Rightarrow> bool \<Rightarrow> 'a mstate \<Rightarrow> 'a mstate \<times> effect list" where
  "setTyping userId isTyping s =
     (s\<lparr>typingUsers := (typingUsers s)(userId \<mapsto> isTyping)\<rparr>,
      if isTyping then [SetTimeout 3000 userId] else [])"

definition typing_timeout :: "string \<Rightarrow> 'a mstate \<Rightarrow> 'a mstate" where
  "typing_timeout userId s = s\<lparr>typingUsers := (typingUsers s)(userId \<mapsto> False)\<rparr>"

text \<open>
  The timers of the event loop, on a clock that counts milliseconds: a pending timer is
  the time at which it is due and the user whose flag its callback clears, in the order
  of the \<^verbatim>\<open>setTimeout\<close> calls. \<open>elapse dt\<close> lets \<open>dt\<close> milliseconds pass with no call
  to the store: every timer due by then fires, the oldest first.
\<close>

record 'm timed_store =
  store :: "'m message_state"
  clock :: nat
  timers :: "(nat \<times> string) list"

fun timeouts_of :: "nat \<Rightarrow> effect list \<Rightarrow> (nat \<times> string) list" where
  "timeouts_of now [] = []"
| "timeouts_of now (SetTimeout d u # fx) = (now + d, u) # timeouts_of now fx"
| "timeouts_of now (_ # fx) = timeouts_of now fx"

definition call_setTyping ::
  "string \<Rightarrow> bool \<Rightarrow> 'a message_scheme timed_store \<Rightarrow> 'a message_scheme timed_store" where
  "call_setTyping userId isTyping w =
     (case setTyping userId isTyping (store w) of
        (s', fx) \<Rightarrow> w\<lparr>store := s', timers := timers w @ timeouts_of (clock w) fx\<rparr>)"

definition elapse :: "nat \<Rightarrow> 'a message_scheme timed_store \<Rightarrow> 'a message_scheme timed_store" where
  "elapse dt w =
     (let t = clock w + dt;
          due = filter (\<lambda>(d, u). d \<le> t) (timers w);
          rest = filter (\<lambda>(d, u). \<not> d \<le> t) (timers w)
      in w\<lparr>store := fold typing_timeout (map snd due) (store w),
           clock := t, timers := rest\<rparr>)"

definition typing :: "'a message_scheme timed_store \<Rightarrow> string \<Rightarrow> bool option" where
  "typing w u = typingUsers (store w) u"

section \<open>Example values\<close>

definition ann :: user_ref where
  "ann = \<lparr>u_id = ''u1'', firstName = ''Ann'', lastName = ''Lee'', email = ''ann@example.org'',
          avatar = None\<rparr>"

definition bob :: user_ref where
  "bob = \<lparr>u_id = ''u2'', firstName = ''Bob'', lastName = ''Ray'', email = ''bob@example.org'',
          avatar = None\<rparr>"

definition msg_general :: message where
  "msg_general = \<lparr>m_id = ''m1'', content = ''hello'', sender = ann, recipient = None,
     channel = Some ''general'', taskRef = None, isEdited = False,
     createdAt = ''2024-01-01'', updatedAt = ''2024-01-01''\<rparr>"

definition msg_random :: message where
  "msg_random = \<lparr>m_id = ''m2'', content = ''elsewhere'', sender = bob, recipient = None,
     channel = Some ''random'', taskRef = None, isEdited = False,
     createdAt = ''2024-01-02'', updatedAt = ''2024-01-02''\<rparr>"

definition in_general :: "unit mstate" where
  "in_general = initial_message_state\<lparr>activeChannel := Some ''general''\<rparr>"

definition unread_three :: unread_count where
  "unread_three = \<lparr>total = 3, byChannel = [''random'' \<mapsto> 3], byConversation = Map.empty\<rparr>"

definition online :: socket_manager where
  "online = \<lparr>socket = Some True\<rparr>"

definition idle :: "message timed_store" where
  "idle = \<lparr>store = initial_message_state, clock = 0, timers = []\<rparr>"

definition task_spec :: task where
  "task_spec = \<lparr>t_id = ''t1'', title = ''Write spec'', description = None, status = Todo,
     priority = High, tags = []\<rparr>"

definition task_review :: task where
  "task_review = \<lparr>t_id = ''t2'', title = ''Review'', description = None, status = Backlog,
     priority = Low, tags = [''qa'']\<rparr>"

definition board :: "task task_state" where
  "board = \<lparr>tasks = [task_spec, task_review], currentTask = Some task_review,
     task_state.isLoading = False, task_state.error = None\<rparr>"

definition unauthorized :: api_error where
  "unauthorized = \<lparr>response = Some \<lparr>http_status = 401, statusText = Some ''Unauthorized'',
       data = DataObject (Some ''Not authorized'')\<rparr>,
     request = True, err_message = ''Request failed with status code 401''\<rparr>"

definition on_board_page :: browser where
  "on_board_page = \<lparr>localStorage = [''auth-storage'' \<mapsto> ''{token}''], pathname = ''/tasks''\<rparr>"

definition server_failure :: api_error where
  "server_failure = \<lparr>response = Some \<lparr>http_status = 500,
       statusText = Some ''Internal Server Error'',
       data = DataObject (Some ''Not authorized'')\<rparr>,
     request = True, err_message = ''Request failed with status code 500''\<rparr>"

definition not_found_empty :: api_error where
  "not_found_empty = \<lparr>response = Some \<lparr>http_status = 404, statusText = Some ''Not Found'',
       data = DataObject None\<rparr>,
     request = True, err_message = ''Request failed with status code 404''\<rparr>"

definition no_response :: api_error where
  "no_response = \<lparr>response = None, request = True, err_message = ''Network Error''\<rparr>"

definition gateway_page :: api_error where
  "gateway_page = \<lparr>response = Some \<lparr>http_status = 502, statusText = Some ''Bad Gateway'',
       data = DataString ''<h1>502</h1>''\<rparr>,
     request = True, err_message = ''Request failed with status code 502''\<rparr>"

definition signed_in :: "unit auth_state" where
  "signed_in = \<lparr>user = Some (), token = Some ''abc'', isAuthenticated = True,
     auth_state.isLoading = False, auth_state.error = None\<rparr>"

definition bearer :: headers where
  "bearer = [''Authorization'' \<mapsto> ''Bearer abc'']"

definition full_storage :: web_storage where
  "full_storage = \<lparr>items = [''auth-storage'' \<mapsto> persisted_auth (Some ''abc'')],
     write_failure = Some ''QuotaExceededError''\<rparr>"

section \<open>Properties of the message store\<close>

lemma in_active_scope_spec:
  "in_active_scope s m \<Longrightarrow> spec_active_scope s m"
  by (auto simp: in_active_scope_def spec_active_scope_def split: option.splits)

lemma addMessage_messages:
  "messages (fst (addMessage m s)) =
     (if in_active_scope s m \<and> copies (m_id m) (messages s) = 0
      then messages s @ [m] else messages s)"
  by (auto simp: addMessage_def fetchUnreadCount_def copies_def Let_def
      find_None_iff filter_empty_conv)

lemma addMessage_effects:
  "snd (addMessage m s) = [Request GET ''/messages/unread'']"
  by (simp add: addMessage_def fetchUnreadCount_def Let_def)

lemma deliver_active:
  "activeChannel (fst (deliver e s)) = activeChannel s"
  "activeRecipient (fst (deliver e s)) = activeRecipient s"
  by (cases e; simp add: addMessage_def fetchUnreadCount_def fetchUnreadCount_resolved_def
      fetchUnreadCount_rejected_def Let_def)+

lemma deliver_scope: "in_active_scope (fst (deliver e s)) m = in_active_scope s m"
  by (simp add: in_active_scope_def deliver_active cong: option.case_cong)

lemma copies_append: "copies i (xs @ [m]) = copies i xs + (if m_id m = i then 1 else 0)"
  by (simp add: copies_def)

lemma deliver_copies:
  "copies i (messages (fst (deliver e s))) =
     (if (\<exists>m. e = AddMessage m \<and> m_id m = i \<and> in_active_scope s m) \<and> copies i (messages s) = 0
      then 1 else copies i (messages s))"
  by (cases e) (auto simp: addMessage_messages copies_append
      fetchUnreadCount_resolved_def fetchUnreadCount_rejected_def)

lemma deliver_all_append:
  "deliver_all (xs @ ys) s =
     (case deliver_all xs s of (s1, f1) \<Rightarrow>
        (case deliver_all ys s1 of (s2, f2) \<Rightarrow> (s2, f1 @ f2)))"
  by (induction xs arbitrary: s) (auto split: prod.splits)

lemma deliver_all_Cons_fst:
  "fst (deliver_all (e # es) s) = fst (deliver_all es (fst (deliver e s)))"
  by (simp split: prod.splits)

lemma deliver_all_scope:
  "in_active_scope (fst (deliver_all es s)) m = in_active_scope s m"
proof (induction es arbitrary: s)
  case Nil
  show ?case by simp
next
  case (Cons e es)
  have "in_active_scope (fst (deliver_all es (fst (deliver e s)))) m = in_active_scope s m"
    by (simp add: Cons.IH deliver_scope)
  then show ?case by (simp only: deliver_all_Cons_fst)
qed

lemma deliver_all_copies:
  "copies i (messages (fst (deliver_all es s))) =
     (if copies i (messages s) = 0
      then (if \<exists>m. AddMessage m \<in> set es \<and> m_id m = i \<and> in_active_scope s m then 1 else 0)
      else copies i (messages s))"
proof (induction es arbitrary: s)
  case Nil
  show ?case by simp
next
  case (Cons e es)
  let ?s1 = "fst (deliver e s)"
  have step: "copies i (messages ?s1) =
     (if (\<exists>m. e = AddMessage m \<and> m_id m = i \<and> in_active_scope s m) \<and> copies i (messages s) = 0
      then 1 else copies i (messages s))"
    by (rule deliver_copies)
  have rest: "copies i (messages (fst (deliver_all es ?s1))) =
     (if copies i (messages ?s1) = 0
      then (if \<exists>m. AddMessage m \<in> set es \<and> m_id m = i \<and> in_active_scope s m then 1 else 0)
      else copies i (messages ?s1))"
    by (simp only: Cons.IH deliver_scope)
  show ?case
    unfolding deliver_all_Cons_fst rest step by auto
qed

lemma in_cache_copies: "m_id m \<in> m_id ` set ms \<longleftrightarrow> copies (m_id m) ms \<noteq> 0"
  by (auto simp: copies_def filter_empty_conv intro: rev_image_eqI)

lemma deliver_all_append_fst:
  "fst (deliver_all (xs @ ys) s) = fst (deliver_all ys (fst (deliver_all xs s)))"
  by (simp add: deliver_all_append split: prod.splits)

subsection \<open>Deduplication\<close>

text \<open>
  Claim C1. Delivering a message whose id already occurs in the cached list does not
  append it again. In any sequence of deliveries (with the unread-count fetches they
  start settling in between) that holds two \<open>addMessage\<close> calls with the same id \<open>i\<close>,
  both in the active scope, the deliveries add a message with that id only when the
  cache held none: on a cache that held at most one message with id \<open>i\<close> to begin
  with, the visible list ends with exactly one.
\<close>

theorem addMessage_dedup:
  "(m_id m \<in> m_id ` set (messages s) \<longrightarrow> messages (fst (addMessage m s)) = messages s) \<and>
   (m_id m1 = i \<and> m_id m2 = i \<and> in_active_scope s m1 \<and> in_active_scope s m2 \<longrightarrow>
      copies i (messages (fst (deliver_all
        (before @ AddMessage m1 # between @ AddMessage m2 # after) s)))
        = max 1 (copies i (messages s))) \<and>
   (m_id m1 = i \<and> m_id m2 = i \<and> in_active_scope s m1 \<and> in_active_scope s m2 \<and>
    copies i (messages s) \<le> 1 \<longrightarrow>
      copies i (messages (fst (deliver_all
        (before @ AddMessage m1 # between @ AddMessage m2 # after) s))) = 1)"
proof -
  have first: "messages (fst (addMessage m s)) = messages s"
    if "m_id m \<in> m_id ` set (messages s)"
    using that by (simp add: addMessage_messages in_cache_copies)
  have second: "copies i (messages (fst (deliver_all
        (before @ AddMessage m1 # between @ AddMessage m2 # after) s)))
        = max 1 (copies i (messages s))"
    if i1: "m_id m1 = i" and sc: "in_active_scope s m1"
  proof -
    have "\<exists>m. AddMessage m \<in> set (before @ AddMessage m1 # between @ AddMessage m2 # after)
        \<and> m_id m = i \<and> in_active_scope s m"
      using i1 sc by auto
    then show ?thesis
      by (simp only: deliver_all_copies) auto
  qed
  have third: "copies i (messages (fst (deliver_all
        (before @ AddMessage m1 # between @ AddMessage m2 # after) s))) = 1"
    if "m_id m1 = i" and "in_active_scope s m1" and "copies i (messages s) \<le> 1"
    using second [OF that(1,2)] that(3) by simp
  show ?thesis
    using first second third by blast
qed

theorem addMessage_dedup_witness:
  "messages (fst (addMessage msg_general (fst (addMessage msg_general in_general))))
     = messages (fst (addMessage msg_general in_general)) \<and>
   copies ''m1'' (messages (fst (deliver_all
     [AddMessage msg_general, UnreadResolved unread_three, AddMessage msg_general, UnreadRejected]
     in_general))) = 1"
proof -
  have sc: "in_active_scope in_general msg_general"
    by (simp add: in_active_scope_def in_general_def msg_general_def truthy_def
        initial_message_state_def)
  have c0: "copies ''m1'' (messages in_general) \<le> 1"
    by (simp add: copies_def in_general_def initial_message_state_def)
  have i1: "m_id msg_general = ''m1''"
    by (simp add: msg_general_def)
  have mem: "m_id msg_general \<in> m_id ` set (messages (fst (addMessage msg_general in_general)))"
    using sc by (simp add: addMessage_messages copies_def in_general_def initial_message_state_def)
  show ?thesis
    using addMessage_dedup [of msg_general "fst (addMessage msg_general in_general)"]
      addMessage_dedup [of _ in_general msg_general "''m1''" msg_general
        "[]" "[UnreadResolved unread_three]" "[UnreadRejected]"]
      sc c0 i1 mem by simp
qed

subsection \<open>Scope filtering\<close>

text \<open>
  Claim C2. \<open>addMessage\<close> changes the visible list only by appending the message, and only
  when the message belongs to the active scope (its channel is the active channel, or
  its sender or recipient is the active partner); a message of any other scope leaves
  the store as it is; in every case the call ends by calling \<open>fetchUnreadCount\<close>,
  which requests the unread counts.
\<close>

theorem addMessage_scope_filter:
  "(messages (fst (addMessage m s)) \<noteq> messages s \<longrightarrow>
      spec_active_scope s m \<and> messages (fst (addMessage m s)) = messages s @ [m]) \<and>
   (\<not> spec_active_scope s m \<longrightarrow> fst (addMessage m s) = s) \<and>
   addMessage m s = fetchUnreadCount (fst (addMessage m s)) \<and>
   snd (addMessage m s) = [Request GET ''/messages/unread'']"
proof -
  have appended: "spec_active_scope s m \<and> messages (fst (addMessage m s)) = messages s @ [m]"
    if "messages (fst (addMessage m s)) \<noteq> messages s"
  proof -
    from that have "in_active_scope s m \<and> messages (fst (addMessage m s)) = messages s @ [m]"
      by (simp add: addMessage_messages split: if_splits)
    then show ?thesis
      by (simp add: in_active_scope_spec)
  qed
  have other: "fst (addMessage m s) = s" if "\<not> spec_active_scope s m"
  proof -
    from that have "\<not> in_active_scope s m"
      using in_active_scope_spec by blast
    then show ?thesis
      by (simp add: addMessage_def fetchUnreadCount_def)
  qed
  have refresh: "addMessage m s = fetchUnreadCount (fst (addMessage m s))"
    by (simp add: addMessage_def fetchUnreadCount_def Let_def)
  show ?thesis
    using appended other refresh addMessage_effects [of m s] by blast
qed

theorem addMessage_scope_filter_witness:
  "messages (fst (addMessage msg_random in_general)) = [] \<and>
   snd (addMessage msg_random in_general) = [Request GET ''/messages/unread''] \<and>
   messages (fst (addMessage msg_general in_general)) = [msg_general] \<and>
   spec_active_scope in_general msg_general"
proof -
  have out: "\<not> spec_active_scope in_general msg_random"
    by (simp add: spec_active_scope_def in_general_def msg_random_def initial_message_state_def)
  have ms: "messages in_general = []"
    by (simp add: in_general_def initial_message_state_def)
  have sc: "in_active_scope in_general msg_general"
    by (simp add: in_active_scope_def in_general_def msg_general_def truthy_def
        initial_message_state_def)
  have ch: "messages (fst (addMessage msg_general in_general)) \<noteq> messages in_general"
    using sc by (simp add: addMessage_messages ms copies_def)
  show ?thesis
    using addMessage_scope_filter [of msg_random in_general]
      addMessage_scope_filter [of msg_general in_general] out ms ch by simp
qed

section \<open>Properties of the task store\<close>

lemma call_action_state: "fst (call_action a s) = s"
  by (cases a) (simp_all add: createTask_def updateTask_def deleteTask_def addComment_def
      updateTaskStatus_def)

lemma call_action_request: "\<exists>m p. snd (call_action a s) = [Request m p]"
  by (cases a) (simp_all add: createTask_def updateTask_def deleteTask_def addComment_def
      updateTaskStatus_def)

lemma settle_action_failure:
  "settle_action a (Inl e) s = (Inl (Error (response_error_or e (fallback_message a))), s)"
  by (cases a) (simp_all add: createTask_settled_def updateTask_settled_def
      deleteTask_settled_def addComment_settled_def updateTaskStatus_settled_def drop_value_def)

lemma replace_task_tasks:
  "length (tasks (replace_task i r s)) = length (tasks s)"
  "k < length (tasks s) \<Longrightarrow>
     tasks (replace_task i r s) ! k = (if t_id (tasks s ! k) = i then r else tasks s ! k)"
  by (simp_all add: replace_task_def)

lemma replace_task_current:
  "currentTask (replace_task i r s) =
     (case currentTask s of None \<Rightarrow> None
      | Some c \<Rightarrow> if t_id c = i then Some r else Some c)"
  by (simp add: replace_task_def)

lemma replace_task_rest:
  "task_state.isLoading (replace_task i r s) = task_state.isLoading s"
  "task_state.error (replace_task i r s) = task_state.error s"
  "task_state.more (replace_task i r s) = task_state.more s"
  by (simp_all add: replace_task_def)

lemma response_error_or_no_response:
  "response x = None \<Longrightarrow> request x \<Longrightarrow>
     response_error_or (normalize_error x) fb = ''No response from server''"
  by (simp add: normalize_error_def response_error_or_def truthy_def)

lemma response_error_or_page:
  "response x = Some r \<Longrightarrow> data r = DataString body \<Longrightarrow>
     response_error_or (normalize_error x) fb = js_concat ''Server error: '' (statusText r)"
  by (simp add: normalize_error_def response_error_or_def truthy_def js_concat_def
      split: option.splits)

text \<open>
  Claim C3, as amended. For each of \<open>createTask\<close>, \<open>updateTask\<close>, \<open>deleteTask\<close>,
  \<open>addComment\<close> and \<open>updateTaskStatus\<close>: calling the action leaves the store as it is
  and issues one request; when the request fails the action throws a new \<open>Error\<close> that
  carries only a message, the \<^verbatim>\<open>response.data.error\<close> text of the normalized error or,
  when that is missing or empty, the action's own fallback text (so a transport failure
  surfaces as \<^verbatim>\<open>No response from server\<close> and an error page as \<^verbatim>\<open>Server error:\<close> with
  the status text), and the store, with its \<open>tasks\<close> and \<open>currentTask\<close>, is exactly the
  one before; the cache differs after settling only when the request resolved.
\<close>

theorem task_mutation_failure:
  "fst (call_action a s) = s \<and>
   (\<exists>m p. snd (call_action a s) = [Request m p]) \<and>
   settle_action a (Inl e) s = (Inl (Error (response_error_or e (fallback_message a))), s) \<and>
   (response x = None \<and> request x \<longrightarrow>
      settle_action a (Inl (normalize_error x)) s = (Inl (Error ''No response from server''), s)) \<and>
   (response y = Some r \<and> data r = DataString body \<longrightarrow>
      settle_action a (Inl (normalize_error y)) s
        = (Inl (Error (js_concat ''Server error: '' (statusText r))), s)) \<and>
   (tasks (snd (settle_action a outcome s)) \<noteq> tasks s
      \<or> currentTask (snd (settle_action a outcome s)) \<noteq> currentTask s
    \<longrightarrow> (\<exists>v. outcome = Inr v \<and> fst (settle_action a outcome s) = Inr ()))"
proof -
  have patched: "\<exists>v. outcome = Inr v \<and> fst (settle_action a outcome s) = Inr ()"
    if ch: "tasks (snd (settle_action a outcome s)) \<noteq> tasks s
      \<or> currentTask (snd (settle_action a outcome s)) \<noteq> currentTask s"
  proof (cases outcome)
    case (Inl e')
    have "snd (settle_action a (Inl e') s) = s"
      by (simp add: settle_action_failure)
    with ch Inl show ?thesis by simp
  next
    case (Inr v)
    have "fst (settle_action a (Inr v) s) = Inr ()"
      by (cases a) (simp_all add: createTask_settled_def updateTask_settled_def
          deleteTask_settled_def addComment_settled_def updateTaskStatus_settled_def
          drop_value_def)
    with Inr show ?thesis by simp
  qed
  have transport: "settle_action a (Inl (normalize_error x)) s
      = (Inl (Error ''No response from server''), s)"
    if "response x = None" and "request x"
    using that by (simp add: settle_action_failure response_error_or_no_response)
  have page: "settle_action a (Inl (normalize_error y)) s
      = (Inl (Error (js_concat ''Server error: '' (statusText r))), s)"
    if "response y = Some r" and "data r = DataString body"
    using that by (simp add: settle_action_failure response_error_or_page)
  show ?thesis
    using call_action_state [of a s] call_action_request [of a s]
      settle_action_failure [of a e s] patched transport page by blast
qed

theorem task_mutation_failure_witness:
  "tasks (snd (settle_action (UpdateTask ''t1'') (Inr (task_spec\<lparr>status := Done\<rparr>)) board))
     \<noteq> tasks board \<and>
   fst (settle_action (UpdateTask ''t1'') (Inr (task_spec\<lparr>status := Done\<rparr>)) board) = Inr () \<and>
   settle_action (UpdateTask ''t1'') (Inl unauthorized) board
     = (Inl (Error ''Not authorized''), board) \<and>
   response no_response = None \<and> request no_response \<and>
   settle_action (UpdateTask ''t1'') (Inl (normalize_error no_response)) board
     = (Inl (Error ''No response from server''), board) \<and>
   settle_action (UpdateTask ''t1'') (Inl (normalize_error gateway_page)) board
     = (Inl (Error ''Server error: Bad Gateway''), board)"
proof -
  have ch: "tasks (snd (settle_action (UpdateTask ''t1'') (Inr (task_spec\<lparr>status := Done\<rparr>)) board))
     \<noteq> tasks board"
    by (simp add: updateTask_settled_def drop_value_def replace_task_def board_def
        task_spec_def task_review_def)
  have msg: "response_error_or unauthorized ''Failed to update task'' = ''Not authorized''"
    by (simp add: response_error_or_def unauthorized_def truthy_def)
  have nr: "response no_response = None" "request no_response"
    by (simp_all add: no_response_def)
  have gp: "response gateway_page
      = Some \<lparr>http_status = 502, statusText = Some ''Bad Gateway'',
              data = DataString ''<h1>502</h1>''\<rparr>"
    by (simp add: gateway_page_def)
  show ?thesis
    using task_mutation_failure [where a = "UpdateTask ''t1''" and s = board
        and e = unauthorized and outcome = "Inr (task_spec\<lparr>status := Done\<rparr>)"
        and x = no_response and y = gateway_page
        and r = "\<lparr>http_status = 502, statusText = Some ''Bad Gateway'',
                   data = DataString ''<h1>502</h1>''\<rparr>"
        and body = "''<h1>502</h1>''"]
      ch msg nr gp
    by (simp add: js_concat_def)
qed

text \<open>
  Claim C3 as stated fails: what a failed action throws is not the normalized error.
  The failures \<open>unauthorized\<close> (status 401) and \<open>server_failure\<close> (status 500) are both
  normalized already and differ, yet \<open>deleteTask\<close> throws the same \<open>Error\<close> for both:
  the status is gone. For a 404 whose body has no \<^verbatim>\<open>error\<close> field it throws the
  fallback text, which is no part of the normalized error.
\<close>

theorem task_mutation_error_not_reraised:
  "normalize_error unauthorized = unauthorized \<and>
   normalize_error server_failure = server_failure \<and>
   unauthorized \<noteq> server_failure \<and>
   fst (settle_action (DeleteTask ''t1'') (Inl unauthorized) board)
     = Inl (Error ''Not authorized'') \<and>
   fst (settle_action (DeleteTask ''t1'') (Inl server_failure) board)
     = Inl (Error ''Not authorized'') \<and>
   normalize_error not_found_empty = not_found_empty \<and>
   fst (settle_action (DeleteTask ''t1'') (Inl not_found_empty) board)
     = Inl (Error ''Failed to delete task'')"
  by (simp add: normalize_error_def unauthorized_def server_failure_def not_found_empty_def
      deleteTask_settled_def response_error_or_def truthy_def)

text \<open>
  Claim C4. When \<open>updateTask\<close> (or \<open>updateTaskStatus\<close>) for \<open>taskId\<close> resolves with a
  record \<open>r\<close> whose status is \<open>Done\<close>: the call itself changed nothing; afterwards the
  list has the same length, every entry with that id is \<open>r\<close> (status \<open>Done\<close>), every
  other entry is unchanged, \<open>currentTask\<close> is unchanged unless it has that id (then it is
  \<open>r\<close>), and the other fields of the store are unchanged.
\<close>

theorem updateTask_frame:
  assumes patched: "status r = Done"
  shows "fst (updateTask taskId s) = s \<and> fst (updateTaskStatus taskId s) = s \<and>
    snd (updateTaskStatus_settled taskId (Inr r) s) = snd (updateTask_settled taskId (Inr r) s) \<and>
    fst (updateTask_settled taskId (Inr r) s) = Inr r \<and>
    length (tasks (snd (updateTask_settled taskId (Inr r) s))) = length (tasks s) \<and>
    (\<forall>k < length (tasks s).
       if t_id (tasks s ! k) = taskId
       then tasks (snd (updateTask_settled taskId (Inr r) s)) ! k = r \<and>
            status (tasks (snd (updateTask_settled taskId (Inr r) s)) ! k) = Done
       else tasks (snd (updateTask_settled taskId (Inr r) s)) ! k = tasks s ! k) \<and>
    (case currentTask s of
       None \<Rightarrow> currentTask (snd (updateTask_settled taskId (Inr r) s)) = None
     | Some c \<Rightarrow>
         if t_id c = taskId
         then currentTask (snd (updateTask_settled taskId (Inr r) s)) = Some r
         else currentTask (snd (updateTask_settled taskId (Inr r) s)) = Some c) \<and>
    task_state.isLoading (snd (updateTask_settled taskId (Inr r) s)) = task_state.isLoading s \<and>
    task_state.error (snd (updateTask_settled taskId (Inr r) s)) = task_state.error s \<and>
    task_state.more (snd (updateTask_settled taskId (Inr r) s)) = task_state.more s"
proof -
  have st: "snd (updateTask_settled taskId (Inr r) s) = replace_task taskId r s"
    by (simp add: updateTask_settled_def)
  have st': "snd (updateTaskStatus_settled taskId (Inr r) s) = replace_task taskId r s"
    by (simp add: updateTaskStatus_settled_def)
  have calls: "fst (updateTask taskId s) = s \<and> fst (updateTaskStatus taskId s) = s"
    by (simp add: updateTask_def updateTaskStatus_def)
  have res: "fst (updateTask_settled taskId (Inr r) s) = Inr r"
    by (simp add: updateTask_settled_def)
  have entries: "\<forall>k < length (tasks s).
       if t_id (tasks s ! k) = taskId
       then tasks (replace_task taskId r s) ! k = r \<and>
            status (tasks (replace_task taskId r s) ! k) = Done
       else tasks (replace_task taskId r s) ! k = tasks s ! k"
    using patched by (simp add: replace_task_tasks)
  have cur: "case currentTask s of
       None \<Rightarrow> currentTask (replace_task taskId r s) = None
     | Some c \<Rightarrow>
         if t_id c = taskId
         then currentTask (replace_task taskId r s) = Some r
         else currentTask (replace_task taskId r s) = Some c"
    by (simp add: replace_task_current split: option.splits)
  show ?thesis
    unfolding st st'
    using calls res entries cur replace_task_tasks(1) [of taskId r s]
      replace_task_rest [of taskId r s]
    by simp
qed

theorem updateTask_frame_witness:
  "status (task_spec\<lparr>status := Done\<rparr>) = Done \<and>
   tasks (snd (updateTask_settled ''t1'' (Inr (task_spec\<lparr>status := Done\<rparr>)) board))
     = [task_spec\<lparr>status := Done\<rparr>, task_review] \<and>
   currentTask (snd (updateTask_settled ''t1'' (Inr (task_spec\<lparr>status := Done\<rparr>)) board))
     = Some task_review"
proof -
  have d: "status (task_spec\<lparr>status := Done\<rparr>) = Done"
    by simp
  have len: "length (tasks board) = 2" and
    ids: "t_id (tasks board ! 0) = ''t1''" "t_id (tasks board ! 1) \<noteq> ''t1''" and
    t1: "tasks board ! 1 = task_review" and
    cur: "currentTask board = Some task_review" "t_id task_review \<noteq> ''t1''"
    by (simp_all add: board_def task_spec_def task_review_def)
  note fr = updateTask_frame [OF d, of "''t1''" board]
  let ?s = "snd (updateTask_settled ''t1'' (Inr (task_spec\<lparr>status := Done\<rparr>)) board)"
  from fr have l: "length (tasks ?s) = 2"
    using len by simp
  from fr have all: "\<forall>k < length (tasks board).
       if t_id (tasks board ! k) = ''t1''
       then tasks ?s ! k = task_spec\<lparr>status := Done\<rparr> \<and> status (tasks ?s ! k) = Done
       else tasks ?s ! k = tasks board ! k"
    by blast
  have e0: "tasks ?s ! 0 = task_spec\<lparr>status := Done\<rparr>"
    using all [rule_format, of 0] len ids by simp
  have e1: "tasks ?s ! 1 = task_review"
    using all [rule_format, of 1] len ids t1 by simp
  have "tasks ?s = [tasks ?s ! 0, tasks ?s ! 1]"
    using l by (cases "tasks ?s"; cases "tl (tasks ?s)"; simp)
  then have ts: "tasks ?s = [task_spec\<lparr>status := Done\<rparr>, task_review]"
    using e0 e1 by simp
  from fr cur have "currentTask ?s = Some task_review"
    by simp
  with d ts show ?thesis by simp
qed

section \<open>Properties of the auth store\<close>

lemma logout_finish_result:
  "logout_finish (s, h, st) =
     ((case write_failure st of None \<Rightarrow> Inr () | Some n \<Rightarrow> Inl (DOMException n)),
      s\<lparr>user := None, token := None, isAuthenticated := False,
        auth_state.isLoading := False\<rparr>,
      h(''Authorization'' := None),
      (case write_failure st of
         None \<Rightarrow> st\<lparr>items := (items st)(''auth-storage'' \<mapsto> persisted_auth None)\<rparr>
       | Some n \<Rightarrow> st))"
  by (simp add: logout_finish_def persist_set_def setItem_def split: option.splits)

text \<open>
  Claim C10, as amended. \<open>logout\<close> posts to \<^verbatim>\<open>/auth/logout\<close> and, whatever the outcome
  of that call (in particular when it fails), ends with \<open>user\<close> and \<open>token\<close> cleared,
  \<open>isAuthenticated\<close> false and the \<^verbatim>\<open>Authorization\<close> default header removed. The outcome
  of the call makes no difference to the result: \<open>logout\<close> resolves when the write of
  the cleared token to \<^verbatim>\<open>localStorage\<close> succeeds, and throws what that write throws
  otherwise, with the state cleared all the same.
\<close>

theorem logout_always_clears:
  "fst (logout s) = s \<and> snd (logout s) = [Request POST ''/auth/logout''] \<and>
   (case logout_settled outcome (s, h, st) of
      (res, s', h', st') \<Rightarrow>
        user s' = None \<and> token s' = None \<and> isAuthenticated s' = False \<and>
        h' ''Authorization'' = None \<and>
        res = (case write_failure st of None \<Rightarrow> Inr () | Some n \<Rightarrow> Inl (DOMException n)) \<and>
        st' = (case write_failure st of
                 None \<Rightarrow> st\<lparr>items := (items st)(''auth-storage'' \<mapsto> persisted_auth None)\<rparr>
               | Some n \<Rightarrow> st)) \<and>
   logout_settled (Inl e) (s, h, st) = logout_settled (Inr v) (s, h, st)"
  by (cases outcome) (simp_all add: logout_def logout_settled_def logout_finish_result)

text \<open>
  Claim C10 as stated fails: signed in, with a storage whose writes throw
  \<^verbatim>\<open>QuotaExceededError\<close>, \<open>logout\<close> throws that exception to its caller although the
  remote call succeeded; the state is cleared.
\<close>

theorem logout_raises_on_storage_failure:
  "fst (logout_settled (Inr ()) (signed_in, bearer, full_storage))
     = Inl (DOMException ''QuotaExceededError'') \<and>
   token (fst (snd (logout_settled (Inr ()) (signed_in, bearer, full_storage)))) = None"
  by (simp add: logout_settled_def logout_finish_result full_storage_def)

section \<open>Properties of the active scope\<close>

lemma setActiveChannel_active:
  "activeChannel (fst (setActiveChannel sm c s)) = c"
  "activeRecipient (fst (setActiveChannel sm c s)) = None"
  by (simp_all add: setActiveChannel_def fetchChannelMessages_def Let_def split: option.splits)

lemma setActiveRecipient_active:
  "activeRecipient (fst (setActiveRecipient u s)) = u"
  "activeChannel (fst (setActiveRecipient u s)) = None"
  by (simp_all add: setActiveRecipient_def fetchDirectMessages_def Let_def split: option.splits)

lemma fetch_settled_active:
  "activeChannel (fst (fetchChannelMessages_settled sm c out s)) = activeChannel s"
  "activeRecipient (fst (fetchChannelMessages_settled sm c out s)) = activeRecipient s"
  "activeChannel (fst (fetchDirectMessages_settled out s)) = activeChannel s"
  "activeRecipient (fst (fetchDirectMessages_settled out s)) = activeRecipient s"
  by (simp_all add: fetchChannelMessages_settled_def fetchDirectMessages_settled_def
      split: sum.splits prod.splits)

text \<open>
  Claim C5. After \<open>setActiveChannel c\<close> followed by \<open>setActiveRecipient u\<close> the active
  channel is null, and after \<open>setActiveRecipient u\<close> followed by \<open>setActiveChannel c\<close> the
  active recipient is null; after \<open>setActiveChannel\<close> alone the active recipient is null
  and after \<open>setActiveRecipient\<close> alone the active channel is null, also once the fetch
  the setter started has settled. So the two are never both set after a setter.
\<close>

theorem active_scope_exclusive:
  "activeChannel (fst (setActiveRecipient u (fst (setActiveChannel sm c s)))) = None \<and>
   activeRecipient (fst (setActiveRecipient u (fst (setActiveChannel sm c s)))) = u \<and>
   activeRecipient (fst (setActiveChannel sm c (fst (setActiveRecipient u s)))) = None \<and>
   activeChannel (fst (setActiveChannel sm c (fst (setActiveRecipient u s)))) = c \<and>
   activeRecipient (fst (setActiveChannel sm c s)) = None \<and>
   activeChannel (fst (setActiveRecipient u s)) = None \<and>
   activeRecipient (fst (fetchChannelMessages_settled sm c' out (fst (setActiveChannel sm c s))))
     = None \<and>
   activeChannel (fst (fetchDirectMessages_settled out (fst (setActiveRecipient u s))))
     = None"
  by (simp add: setActiveChannel_active setActiveRecipient_active fetch_settled_active)

text \<open>
  Claim C6. With the socket connected and \<^verbatim>\<open>general\<close> the active channel,
  \<open>setActiveRecipient\<close> only requests the direct messages: it emits no
  \<^verbatim>\<open>channel:leave\<close>, whereas \<open>setActiveChannel\<close> on the same store emits it first.
\<close>

theorem setActiveRecipient_keeps_subscription:
  "activeChannel in_general = Some ''general'' \<and>
   snd (setActiveRecipient (Some ''u1'') in_general) = [Request GET ''/messages/dm/u1''] \<and>
   snd (setActiveChannel online (Some ''random'') in_general)
     = [SocketEmit ''channel:leave'' ''general'', Request GET ''/messages/channel/random'']"
  by (simp add: setActiveRecipient_def setActiveChannel_def fetchDirectMessages_def
      fetchChannelMessages_def emit_def online_def in_general_def initial_message_state_def
      truthy_def Let_def)

section \<open>Properties of the remote client\<close>

lemma normalize_error_status:
  "response err = Some r \<Longrightarrow>
     map_option http_status (response (normalize_error err)) = Some (http_status r)"
  by (simp add: normalize_error_def split: response_data.splits)

text \<open>
  Claim C7. When a call fails with a response of status 401, the error handler of the
  client removes the \<^verbatim>\<open>auth-storage\<close> entry, once, sends the browser to \<^verbatim>\<open>/login\<close>
  unless it is there, issues no request, and rejects with the normalized error, whose
  status is still 401.
\<close>

theorem unauthorized_clears_credential:
  assumes resp: "response err = Some r" and unauth: "http_status r = 401"
  shows "case (response_error_handler err b :: (api_error + 'r) \<times> browser \<times> effect list) of
      (res, b', fx) \<Rightarrow>
        localStorage b' = (localStorage b)(''auth-storage'' := None) \<and>
        pathname b' = pathname b \<and>
        fx = RemoveItem ''auth-storage'' #
               (if pathname b = ''/login'' then [] else [SetHref ''/login'']) \<and>
        count_list fx (RemoveItem ''auth-storage'') = 1 \<and>
        filter is_request fx = [] \<and>
        res = Inl (normalize_error err) \<and>
        map_option http_status (response (normalize_error err)) = Some 401"
proof -
  have h: "handle_unauthorized err b =
      (b\<lparr>localStorage := (localStorage b)(''auth-storage'' := None)\<rparr>,
       RemoveItem ''auth-storage'' #
         (if pathname b = ''/login'' then [] else [SetHref ''/login'']))"
    using resp unauth by (simp add: handle_unauthorized_def)
  have st: "map_option http_status (response (normalize_error err)) = Some 401"
    using normalize_error_status [OF resp] unauth by simp
  show ?thesis
    using st by (simp add: response_error_handler_def h is_request_def)
qed

theorem unauthorized_clears_credential_witness:
  "response unauthorized
     = Some \<lparr>http_status = 401, statusText = Some ''Unauthorized'',
             data = DataObject (Some ''Not authorized'')\<rparr> \<and>
   (case response_error_handler unauthorized on_board_page of
      (res, b', fx) \<Rightarrow>
        localStorage b' ''auth-storage'' = None \<and>
        fx = [RemoveItem ''auth-storage'', SetHref ''/login''] \<and>
        res = (Inl (normalize_error unauthorized) :: api_error + unit))"
proof -
  have r: "response unauthorized
     = Some \<lparr>http_status = 401, statusText = Some ''Unauthorized'',
             data = DataObject (Some ''Not authorized'')\<rparr>"
    by (simp add: unauthorized_def)
  have p: "pathname on_board_page = ''/tasks''"
    by (simp add: on_board_page_def)
  show ?thesis
    using unauthorized_clears_credential [where 'r = unit, OF r, of on_board_page] r p
    by (simp split: prod.splits)
qed

section \<open>Unread counters\<close>

text \<open>
  Claim C8, as amended. Every \<open>addMessage\<close> call ends by calling \<open>fetchUnreadCount\<close>,
  which requests the aggregate; the counters change only when that request resolves,
  and then to the fetched value as a whole; \<open>addMessage\<close> and \<open>sendMessage\<close> themselves
  never write them. \<open>sendMessage\<close> posts the message and, when that resolves, appends
  it: it starts no refresh.
\<close>

theorem unread_refresh:
  "addMessage m s = fetchUnreadCount (fst (addMessage m s)) \<and>
   snd (fetchUnreadCount s) = [Request GET ''/messages/unread''] \<and>
   unreadCount (fst (fetchUnreadCount s)) = unreadCount s \<and>
   unreadCount (fst (fetchUnreadCount_resolved d s)) = d \<and>
   unreadCount (fst (fetchUnreadCount_rejected s)) = unreadCount s \<and>
   unreadCount (fst (addMessage m s)) = unreadCount s \<and>
   sendMessage s = (s, [Request POST ''/messages'']) \<and>
   sendMessage_settled (Inr m) s = (Inr (), s\<lparr>messages := messages s @ [m]\<rparr>, []) \<and>
   unreadCount (fst (snd (sendMessage_settled outcome s))) = unreadCount s \<and>
   filter is_request (snd (snd (sendMessage_settled outcome s))) = []"
  by (cases outcome)
    (simp_all add: addMessage_def fetchUnreadCount_def fetchUnreadCount_resolved_def
      fetchUnreadCount_rejected_def sendMessage_def sendMessage_settled_def Let_def
      is_request_def)

text \<open>
  Claim C8 as stated fails: a \<open>sendMessage\<close> that resolves performs no further effect,
  so no unread-count request follows it, and the counters stay as they were.
\<close>

theorem sendMessage_no_refresh:
  "snd (sendMessage in_general) = [Request POST ''/messages''] \<and>
   snd (snd (sendMessage_settled (Inr msg_general) in_general)) = [] \<and>
   unreadCount (fst (snd (sendMessage_settled (Inr msg_general) in_general)))
     = unreadCount in_general"
  by (simp add: sendMessage_def sendMessage_settled_def)

section \<open>Typing flags\<close>

lemma fold_typing_timeout:
  "typingUsers (fold typing_timeout us s) x = (if x \<in> set us then Some False else typingUsers s x)"
  by (induction us arbitrary: s) (auto simp: typing_timeout_def)

lemma typing_elapse_due:
  "typing (elapse dt w) u =
     (if u \<in> set (map snd (filter (\<lambda>(d, u). d \<le> clock w + dt) (timers w)))
      then Some False else typing w u)"
  by (simp add: typing_def elapse_def Let_def fold_typing_timeout)

lemma typing_elapse:
  "typing (elapse dt w) u =
     (if \<exists>d. (d, u) \<in> set (timers w) \<and> d \<le> clock w + dt then Some False else typing w u)"
  by (auto simp: typing_elapse_due image_iff)

lemma elapse_timers:
  "timers (elapse dt w) = filter (\<lambda>(d, u). \<not> d \<le> clock w + dt) (timers w)"
  "clock (elapse dt w) = clock w + dt"
  by (simp_all add: elapse_def Let_def)

lemma call_setTyping_True:
  "typing (call_setTyping u True w) x = (if x = u then Some True else typing w x)"
  "timers (call_setTyping u True w) = timers w @ [(clock w + 3000, u)]"
  "clock (call_setTyping u True w) = clock w"
  by (simp_all add: call_setTyping_def setTyping_def typing_def)

text \<open>
  Claim C9, as amended. When no auto-clear for \<open>u\<close> is pending, \<open>setTyping u True\<close> sets
  the flag, which with no further call is true throughout the 3000 ms after the call
  and false from then on. A second \<open>setTyping u True\<close>, \<open>g\<close> ms after the first
  (\<open>g < 3000\<close>), does not restart the window: the first timer still fires, and the flag
  is true only until 3000 ms after the first call.
\<close>

theorem setTyping_auto_clear:
  assumes none: "u \<notin> snd ` set (timers w)"
  shows "typing (call_setTyping u True w) u = Some True \<and>
    typing (elapse dt (call_setTyping u True w)) u = Some (dt < 3000) \<and>
    (g < 3000 \<longrightarrow>
       typing (elapse dt (call_setTyping u True (elapse g (call_setTyping u True w)))) u
         = Some (g + dt < 3000))"
proof -
  have no: "\<And>d. (d, u) \<notin> set (timers w)"
    using none by force
  have one: "typing (elapse dt (call_setTyping u True w)) u = Some (dt < 3000)" for dt
    by (auto simp: typing_elapse call_setTyping_True no)
  have two: "typing (elapse dt (call_setTyping u True (elapse g (call_setTyping u True w)))) u
         = Some (g + dt < 3000)" if "g < 3000"
    using that by (auto simp: typing_elapse call_setTyping_True elapse_timers no)
  show ?thesis
    using one two by (simp add: call_setTyping_True)
qed

theorem setTyping_auto_clear_witness:
  "typing (elapse 2999 (call_setTyping ''u1'' True idle)) ''u1'' = Some True \<and>
   typing (elapse 3000 (call_setTyping ''u1'' True idle)) ''u1'' = Some False \<and>
   typing (elapse 999 (call_setTyping ''u1'' True (elapse 2000 (call_setTyping ''u1'' True idle))))
     ''u1'' = Some True"
proof -
  have none: "''u1'' \<notin> snd ` set (timers idle)"
    by (simp add: idle_def)
  show ?thesis
    using setTyping_auto_clear [OF none, of 2999 2000]
      setTyping_auto_clear [OF none, of 3000 2000]
      setTyping_auto_clear [OF none, of 999 2000]
    by simp
qed

text \<open>
  Claim C9 as stated fails: with calls at 0 ms and at 2000 ms the flag is true after
  the second call and false at 3000 ms, one second after the most recent call.
\<close>

theorem setTyping_no_restart:
  "typing (call_setTyping ''u1'' True (elapse 2000 (call_setTyping ''u1'' True idle))) ''u1''
     = Some True \<and>
   typing (elapse 1000 (call_setTyping ''u1'' True (elapse 2000 (call_setTyping ''u1'' True idle))))
     ''u1'' = Some False"
  by (simp add: typing_elapse_due call_setTyping_True elapse_timers idle_def)

end
